theory Spec2Isabelle
  imports Main
begin

section \<open>SQLEngine: a factory of database engines over a wrapped toolkit\<close>

text \<open>
  The module \<^verbatim>\<open>sqlengine.py\<close> defines the class \<^verbatim>\<open>SQLEngine\<close>, its subclasses
  \<^verbatim>\<open>MSSQLEngine\<close> and \<^verbatim>\<open>AccessEngine\<close>, and the function \<^verbatim>\<open>build_engine\<close>.
  Everything else (the URL object, the engine, the connection) belongs to the wrapped
  toolkit, whose code is not part of the repository: it enters the model as a parameter.
\<close>

subsection \<open>Data\<close>

text \<open>A Python \<^verbatim>\<open>dict[str, str]\<close>: a finite map from strings to strings.\<close>

type_synonym dict = "string \<rightharpoonup> string"

text \<open>
  Dictionaries are mutable objects that several names may refer to, so they live in a
  store and are passed by reference. Two of them are created by the class bodies, the
  class attributes \<^verbatim>\<open>MSSQLEngine.query\<close> and \<^verbatim>\<open>AccessEngine.query\<close>; every other
  dictionary is an object of the caller.
\<close>

datatype addr = MSSQLEngine_query | AccessEngine_query | Caller nat

text \<open>
  The values of the extra keyword arguments (\<^verbatim>\<open>**kwargs\<close>) that \<^verbatim>\<open>SQLEngine.__init__\<close>
  hands on to \<^verbatim>\<open>URL.create\<close>.
\<close>

datatype kwval = KwStr string | KwInt int

type_synonym kwargs = "string \<rightharpoonup> kwval"

text \<open>
  Exceptions: the two \<^verbatim>\<open>assert\<close> statements of \<^verbatim>\<open>build_engine\<close> with their messages,
  the \<^verbatim>\<open>TypeError\<close> of a call that receives one keyword twice, and whatever the wrapped
  toolkit raises (type \<open>'x\<close>).
\<close>

datatype 'x exn = AssertionError string | TypeError | Raised 'x

text \<open>
  What the module imports: \<^verbatim>\<open>URL.create\<close>, \<^verbatim>\<open>create_engine\<close> and
  \<^verbatim>\<open>Engine.connect\<close> of the wrapped toolkit, and \<^verbatim>\<open>str(Path(p).absolute())\<close> of the
  standard library. The toolkit's calls may raise, and they act on a world \<open>'w\<close> outside
  the program (installed drivers, sockets, the working directory). \<^verbatim>\<open>URL.create\<close>
  takes its keyword arguments in the order drivername, host, database, query, followed
  by the extra keywords; it is handed the contents the query dictionary has at the
  moment of the call.
\<close>

record ('url, 'engine, 'conn, 'x, 'w) library =
  URL_create :: "string option \<Rightarrow> string option \<Rightarrow> string option \<Rightarrow> dict option
                   \<Rightarrow> kwargs \<Rightarrow> 'w \<Rightarrow> ('x + 'url) \<times> 'w"
  create_engine :: "'url \<Rightarrow> 'w \<Rightarrow> ('x + 'engine) \<times> 'w"
  Engine_connect :: "'engine \<Rightarrow> 'w \<Rightarrow> ('x + 'conn) \<times> 'w"
  Path_absolute :: "string \<Rightarrow> 'w \<Rightarrow> string"

text \<open>The program state: the store of dictionaries and the world of the toolkit.\<close>

record 'w state =
  store :: "addr \<Rightarrow> dict"
  world :: 'w

text \<open>
  An instance of \<^verbatim>\<open>SQLEngine\<close> (or of a subclass) with its six instance attributes.
  The attribute \<^verbatim>\<open>query\<close> holds a reference, not a copy.
\<close>

record ('url, 'engine) sqlengine =
  driver :: "string option"
  host :: "string option"
  database :: "string option"
  query :: "addr option"
  url :: 'url
  engine :: 'engine

subsection \<open>Class attributes\<close>

definition MSSQLEngine_driver :: string where
  "MSSQLEngine_driver = ''mssql+pyodbc''"

definition MSSQLEngine_query_literal :: dict where
  "MSSQLEngine_query_literal = [''driver'' \<mapsto> ''SQL Server Native Client 11.0'']"

definition AccessEngine_driver :: string where
  "AccessEngine_driver = ''access+pyodbc''"

definition AccessEngine_query_literal :: dict where
  "AccessEngine_query_literal =
     [''driver'' \<mapsto> ''Microsoft Access Driver (*.mdb, *.accdb)'', ''ExtendedAnsiSql'' \<mapsto> ''1'']"

text \<open>
  The state once the module is loaded: the two class dictionaries hold the literals of
  the class bodies; the caller's dictionaries and the world are arbitrary.
\<close>

definition initial_state :: "(nat \<Rightarrow> dict) \<Rightarrow> 'w \<Rightarrow> 'w state" where
  "initial_state caller w =
     \<lparr>store = (\<lambda>a. case a of
                  MSSQLEngine_query \<Rightarrow> MSSQLEngine_query_literal
                | AccessEngine_query \<Rightarrow> AccessEngine_query_literal
                | Caller n \<Rightarrow> caller n),
      world = w\<rparr>"

subsection \<open>The constructors\<close>

text \<open>
  \<^verbatim>\<open>SQLEngine.__init__\<close>: stores the four arguments, builds the URL, builds the engine.
  A keyword \<^verbatim>\<open>drivername\<close> among the extra keywords meets the explicit
  \<^verbatim>\<open>drivername=self.driver\<close> of the call and raises \<^verbatim>\<open>TypeError\<close> before the toolkit
  is entered. An exception of the toolkit leaves no instance behind.
\<close>

definition SQLEngine_init ::
  "('url, 'engine, 'conn, 'x, 'w) library \<Rightarrow> string option \<Rightarrow> string option \<Rightarrow> string option
     \<Rightarrow> addr option \<Rightarrow> kwargs \<Rightarrow> 'w state \<Rightarrow> ('x exn + ('url, 'engine) sqlengine) \<times> 'w state" where
  "SQLEngine_init lib drv hst dbn qry kw s =
     (if kw ''drivername'' \<noteq> None then (Inl TypeError, s)
      else case URL_create lib drv hst dbn (map_option (store s) qry) kw (world s) of
        (Inl e, w1) \<Rightarrow> (Inl (Raised e), s\<lparr>world := w1\<rparr>)
      | (Inr u, w1) \<Rightarrow>
          (case create_engine lib u w1 of
             (Inl e, w2) \<Rightarrow> (Inl (Raised e), s\<lparr>world := w2\<rparr>)
           | (Inr g, w2) \<Rightarrow>
               (Inr \<lparr>driver = drv, host = hst, database = dbn, query = qry, url = u, engine = g\<rparr>,
                s\<lparr>world := w2\<rparr>)))"

text \<open>\<^verbatim>\<open>SQLEngine.connect\<close>.\<close>

definition connect ::
  "('url, 'engine, 'conn, 'x, 'w) library \<Rightarrow> ('url, 'engine) sqlengine \<Rightarrow> 'w state
     \<Rightarrow> ('x exn + 'conn) \<times> 'w state" where
  "connect lib self s =
     (case Engine_connect lib (engine self) (world s) of
        (Inl e, w1) \<Rightarrow> (Inl (Raised e), s\<lparr>world := w1\<rparr>)
      | (Inr c, w1) \<Rightarrow> (Inr c, s\<lparr>world := w1\<rparr>))"

text \<open>
  \<^verbatim>\<open>MSSQLEngine.__init__\<close>: \<^verbatim>\<open>self.driver\<close> and \<^verbatim>\<open>self.query\<close> are read on a fresh
  instance, hence are the class attributes; the dictionary is passed by reference.
\<close>

definition MSSQLEngine_init ::
  "('url, 'engine, 'conn, 'x, 'w) library \<Rightarrow> string option \<Rightarrow> string option \<Rightarrow> 'w state
     \<Rightarrow> ('x exn + ('url, 'engine) sqlengine) \<times> 'w state" where
  "MSSQLEngine_init lib hst dbn s =
     SQLEngine_init lib (Some MSSQLEngine_driver) hst dbn (Some MSSQLEngine_query) Map.empty s"

text \<open>
  \<^verbatim>\<open>AccessEngine.__init__\<close>: the assignment \<^verbatim>\<open>self.query["DBQ"] = ...\<close> writes into the
  dictionary \<^verbatim>\<open>self.query\<close> refers to, the class attribute, before the constructor of
  the base class runs.
\<close>

definition AccessEngine_init ::
  "('url, 'engine, 'conn, 'x, 'w) library \<Rightarrow> string \<Rightarrow> 'w state
     \<Rightarrow> ('x exn + ('url, 'engine) sqlengine) \<times> 'w state" where
  "AccessEngine_init lib db_path s =
     SQLEngine_init lib (Some AccessEngine_driver) None None (Some AccessEngine_query) Map.empty
       (s\<lparr>store := (store s)(AccessEngine_query :=
             (store s AccessEngine_query)(''DBQ'' \<mapsto> Path_absolute lib db_path (world s)))\<rparr>)"

subsection \<open>The factory\<close>

text \<open>
  The attribute \<^verbatim>\<open>.engine\<close> of a constructed instance; an exception passes through.
\<close>

definition engine_of ::
  "('x exn + ('url, 'engine) sqlengine) \<times> 'w state \<Rightarrow> ('x exn + 'engine) \<times> 'w state" where
  "engine_of r = (case r of (Inl e, s) \<Rightarrow> (Inl e, s) | (Inr self, s) \<Rightarrow> (Inr (engine self), s))"

text \<open>
  \<^verbatim>\<open>build_engine\<close>, with its two assertions and its three branches in the order of the
  source. The handler of the last branch raises the exception it caught again.
\<close>

definition build_engine ::
  "('url, 'engine, 'conn, 'x, 'w) library \<Rightarrow> string option \<Rightarrow> string option \<Rightarrow> string option
     \<Rightarrow> addr option \<Rightarrow> string option \<Rightarrow> 'w state \<Rightarrow> ('x exn + 'engine) \<times> 'w state" where
  "build_engine lib drv hst dbn qry local_db_filepath s =
     (if \<not> (drv \<noteq> None \<or> local_db_filepath \<noteq> None)
      then (Inl (AssertionError ''Specify a driver or local database file path.''), s)
      else if drv = Some ''mssql'' then engine_of (MSSQLEngine_init lib hst dbn s)
      else if drv = Some ''access'' then
        (case local_db_filepath of
           None \<Rightarrow>
             (Inl (AssertionError ''Using Access you must specify a local database file path.''), s)
         | Some p \<Rightarrow> engine_of (AccessEngine_init lib p s))
      else
        (case engine_of (SQLEngine_init lib drv hst dbn qry Map.empty s) of
           (Inl e, s') \<Rightarrow> (Inl e, s')
         | (Inr g, s') \<Rightarrow> (Inr g, s')))"


subsection \<open>Reading a query attribute\<close>

text \<open>
  What the expression \<^verbatim>\<open>self.query\<close> evaluates to in a state: the contents of the
  dictionary the attribute refers to, or \<^verbatim>\<open>None\<close>.
\<close>

definition query_dict :: "'w state \<Rightarrow> ('url, 'engine) sqlengine \<Rightarrow> dict option" where
  "query_dict s self = map_option (store s) (query self)"

subsection \<open>Delegation, in the words of the specification\<close>

text \<open>
  ``Assembling a connection URL and delegating to the toolkit for engine creation'':
  \<^verbatim>\<open>create_engine\<close> applied to \<^verbatim>\<open>URL.create\<close> of a driver name, a host, a database
  and query parameters, and nothing else.
\<close>

definition create_engine_of_URL ::
  "('url, 'engine, 'conn, 'x, 'w) library \<Rightarrow> string option \<Rightarrow> string option \<Rightarrow> string option
     \<Rightarrow> dict option \<Rightarrow> 'w \<Rightarrow> ('x + 'engine) \<times> 'w" where
  "create_engine_of_URL lib drv hst dbn q w =
     (case URL_create lib drv hst dbn q Map.empty w of
        (Inl e, w1) \<Rightarrow> (Inl e, w1)
      | (Inr u, w1) \<Rightarrow> create_engine lib u w1)"

text \<open>
  The same as an outcome of the program: the toolkit's engine or the toolkit's
  exception, in a state of which only the world has moved.
\<close>

definition delegated ::
  "('url, 'engine, 'conn, 'x, 'w) library \<Rightarrow> string option \<Rightarrow> string option \<Rightarrow> string option
     \<Rightarrow> dict option \<Rightarrow> 'w state \<Rightarrow> ('x exn + 'engine) \<times> 'w state" where
  "delegated lib drv hst dbn q s =
     (case create_engine_of_URL lib drv hst dbn q (world s) of
        (Inl e, w1) \<Rightarrow> (Inl (Raised e), s\<lparr>world := w1\<rparr>)
      | (Inr g, w1) \<Rightarrow> (Inr g, s\<lparr>world := w1\<rparr>))"

subsection \<open>The states a program can be in\<close>

text \<open>
  After the module is loaded, a program calls the constructors, \<^verbatim>\<open>connect\<close> and
  \<^verbatim>\<open>build_engine\<close> in any order and with any arguments, writes to its own
  dictionaries, and the world moves on its own.
\<close>

inductive reachable :: "('url, 'engine, 'conn, 'x, 'w) library \<Rightarrow> 'w state \<Rightarrow> bool"
  for lib :: "('url, 'engine, 'conn, 'x, 'w) library" where
  loaded: "reachable lib (initial_state caller w)"
| new_SQLEngine:
    "reachable lib s \<Longrightarrow> reachable lib (snd (SQLEngine_init lib drv hst dbn qry kw s))"
| new_MSSQLEngine:
    "reachable lib s \<Longrightarrow> reachable lib (snd (MSSQLEngine_init lib hst dbn s))"
| new_AccessEngine:
    "reachable lib s \<Longrightarrow> reachable lib (snd (AccessEngine_init lib p s))"
| called_connect:
    "reachable lib s \<Longrightarrow> reachable lib (snd (connect lib self s))"
| called_build_engine:
    "reachable lib s \<Longrightarrow> reachable lib (snd (build_engine lib drv hst dbn qry path s))"
| caller_write:
    "reachable lib s \<Longrightarrow> reachable lib (s\<lparr>store := (store s)(Caller n := d)\<rparr>)"
| world_moves:
    "reachable lib s \<Longrightarrow> reachable lib (s\<lparr>world := w\<rparr>)"

text \<open>
  The class dictionaries as they are in every such state: \<^verbatim>\<open>MSSQLEngine.query\<close> is the
  literal of its class body, and \<^verbatim>\<open>AccessEngine.query\<close> differs from its literal at
  the key \<^verbatim>\<open>DBQ\<close> at most.
\<close>

definition class_dicts_ok :: "'w state \<Rightarrow> bool" where
  "class_dicts_ok s \<longleftrightarrow>
     store s MSSQLEngine_query = MSSQLEngine_query_literal \<and>
     (\<forall>v. (store s AccessEngine_query)(''DBQ'' \<mapsto> v) = AccessEngine_query_literal(''DBQ'' \<mapsto> v))"

subsection \<open>A small toolkit\<close>

text \<open>
  An instance of the toolkit's interface on which the theorems below are exercised. Its
  URL records the components it was made of, and \<^verbatim>\<open>URL.create\<close> refuses a missing
  driver name; its engine is the URL; a connection is named after the driver; the
  world counts the calls made so far; relative paths are taken from \<^verbatim>\<open>/srv\<close>.
\<close>

datatype small_url = Small_URL string "string option" "string option" dict

fun small_url_query :: "small_url \<Rightarrow> dict" where
  "small_url_query (Small_URL d h b q) = q"

definition small_toolkit :: "(small_url, small_url, string, string, nat) library" where
  "small_toolkit =
     \<lparr>URL_create = (\<lambda>drv hst dbn q kw w.
          case drv of
            None \<Rightarrow> (Inl ''TypeError'', Suc w)
          | Some d \<Rightarrow> (Inr (Small_URL d hst dbn (case q of None \<Rightarrow> Map.empty | Some m \<Rightarrow> m)), Suc w)),
       create_engine = (\<lambda>u w. (Inr u, Suc w)),
       Engine_connect = (\<lambda>g w. case g of Small_URL d h b q \<Rightarrow> (Inr d, Suc w)),
       Path_absolute = (\<lambda>p w. if take 1 p = ''/'' then p else ''/srv/'' @ p)\<rparr>"

section \<open>Properties\<close>

subsection \<open>What the operations leave alone\<close>

lemma snd_engine_of: "snd (engine_of r) = snd r"
  by (simp add: engine_of_def split: prod.splits sum.splits)

lemma SQLEngine_init_store: "store (snd (SQLEngine_init lib drv hst dbn qry kw s)) = store s"
  by (simp add: SQLEngine_init_def split: prod.splits sum.splits)

lemma MSSQLEngine_init_store: "store (snd (MSSQLEngine_init lib hst dbn s)) = store s"
  by (simp add: MSSQLEngine_init_def SQLEngine_init_store)

lemma AccessEngine_init_store:
  "store (snd (AccessEngine_init lib p s)) =
     (store s)(AccessEngine_query :=
        (store s AccessEngine_query)(''DBQ'' \<mapsto> Path_absolute lib p (world s)))"
  by (simp add: AccessEngine_init_def SQLEngine_init_store)

lemma connect_store: "store (snd (connect lib self s)) = store s"
  by (simp add: connect_def split: prod.splits sum.splits)

lemma reraise: "(case r of (Inl e, s') \<Rightarrow> (Inl e, s') | (Inr g, s') \<Rightarrow> (Inr g, s')) = r"
  by (simp split: prod.splits sum.splits)

lemma build_engine_store:
  "store (snd (build_engine lib drv hst dbn qry path s)) =
     (if drv = Some ''access''
      then (case path of None \<Rightarrow> store s | Some p \<Rightarrow> store (snd (AccessEngine_init lib p s)))
      else store s)"
  by (simp add: build_engine_def reraise snd_engine_of SQLEngine_init_store MSSQLEngine_init_store
        split: option.splits)

lemma class_dicts_ok_initial: "class_dicts_ok (initial_state caller w)"
  by (simp add: class_dicts_ok_def initial_state_def)

lemma class_dicts_ok_store:
  assumes "class_dicts_ok s" and "store s' = store s"
  shows "class_dicts_ok s'"
  using assms by (simp add: class_dicts_ok_def)

lemma class_dicts_ok_AccessEngine_init:
  assumes "class_dicts_ok s"
  shows "class_dicts_ok (snd (AccessEngine_init lib p s))"
  using assms by (simp add: class_dicts_ok_def AccessEngine_init_store)

lemma reachable_class_dicts_ok: "reachable lib s \<Longrightarrow> class_dicts_ok s"
proof (induction rule: reachable.induct)
  case (loaded caller w)
  show ?case by (rule class_dicts_ok_initial)
next
  case (new_SQLEngine s drv hst dbn qry kw)
  from new_SQLEngine.IH show ?case by (rule class_dicts_ok_store) (rule SQLEngine_init_store)
next
  case (new_MSSQLEngine s hst dbn)
  from new_MSSQLEngine.IH show ?case by (rule class_dicts_ok_store) (rule MSSQLEngine_init_store)
next
  case (new_AccessEngine s p)
  from new_AccessEngine.IH show ?case by (rule class_dicts_ok_AccessEngine_init)
next
  case (called_connect s self)
  from called_connect.IH show ?case by (rule class_dicts_ok_store) (rule connect_store)
next
  case (called_build_engine s drv hst dbn qry path)
  show ?case
  proof (cases "drv = Some ''access'' \<and> path \<noteq> None")
    case True
    then obtain p where "drv = Some ''access''" "path = Some p" by blast
    then have "store (snd (build_engine lib drv hst dbn qry path s)) =
               store (snd (AccessEngine_init lib p s))"
      by (simp add: build_engine_store)
    with class_dicts_ok_AccessEngine_init [OF called_build_engine.IH, of lib p]
    show ?thesis by (simp add: class_dicts_ok_def)
  next
    case False
    then have "store (snd (build_engine lib drv hst dbn qry path s)) = store s"
      by (auto simp add: build_engine_store)
    with called_build_engine.IH show ?thesis by (rule class_dicts_ok_store)
  qed
next
  case (caller_write s n d)
  then show ?case by (simp add: class_dicts_ok_def)
next
  case (world_moves s w)
  then show ?case by (simp add: class_dicts_ok_def)
qed

subsection \<open>Building an engine is delegation\<close>

lemma SQLEngine_init_delegated:
  "engine_of (SQLEngine_init lib drv hst dbn qry Map.empty s) =
     delegated lib drv hst dbn (map_option (store s) qry) s"
  by (simp add: engine_of_def SQLEngine_init_def delegated_def create_engine_of_URL_def
        split: prod.splits sum.splits)

lemma build_engine_mssql_delegated:
  assumes "class_dicts_ok s"
  shows "build_engine lib (Some ''mssql'') hst dbn qry path s =
           delegated lib (Some ''mssql+pyodbc'') hst dbn
             (Some [''driver'' \<mapsto> ''SQL Server Native Client 11.0'']) s"
  using assms
  by (simp add: build_engine_def MSSQLEngine_init_def SQLEngine_init_delegated class_dicts_ok_def
        MSSQLEngine_driver_def MSSQLEngine_query_literal_def)

lemma build_engine_access_delegated:
  assumes "class_dicts_ok s"
  shows "build_engine lib (Some ''access'') hst dbn qry (Some p) s =
           delegated lib (Some ''access+pyodbc'') None None
             (Some [''driver'' \<mapsto> ''Microsoft Access Driver (*.mdb, *.accdb)'',
                    ''ExtendedAnsiSql'' \<mapsto> ''1'',
                    ''DBQ'' \<mapsto> Path_absolute lib p (world s)])
             (s\<lparr>store := (store s)(AccessEngine_query :=
                  (store s AccessEngine_query)(''DBQ'' \<mapsto> Path_absolute lib p (world s)))\<rparr>)"
  using assms
  by (simp add: build_engine_def AccessEngine_init_def SQLEngine_init_delegated class_dicts_ok_def
        AccessEngine_driver_def AccessEngine_query_literal_def)

section \<open>The claims\<close>

text \<open>
  Claim C1. For every host and database, \<^verbatim>\<open>build_engine\<close> with the driver \<^verbatim>\<open>"mssql"\<close>
  takes the branch of \<^verbatim>\<open>MSSQLEngine\<close> and returns the attribute \<^verbatim>\<open>engine\<close> of the instance.
  In every state a program can be in, that engine is what the toolkit makes of the URL with
  driver name \<^verbatim>\<open>mssql+pyodbc\<close>, the given host and database, and exactly the query
  parameters \<^verbatim>\<open>{"driver": "SQL Server Native Client 11.0"}\<close>; the only way not to return
  it is an exception of the toolkit on that URL, which is passed on.
\<close>

theorem build_engine_mssql:
  assumes "reachable lib s"
  shows "build_engine lib (Some ''mssql'') hst dbn qry path s = engine_of (MSSQLEngine_init lib hst dbn s)
       \<and> build_engine lib (Some ''mssql'') hst dbn qry path s =
           delegated lib (Some ''mssql+pyodbc'') hst dbn
             (Some [''driver'' \<mapsto> ''SQL Server Native Client 11.0'']) s"
  using build_engine_mssql_delegated [OF reachable_class_dicts_ok [OF assms]]
  by (simp add: build_engine_def)

theorem build_engine_mssql_witness:
  "reachable small_toolkit (initial_state (\<lambda>n. Map.empty) 0)
   \<and> build_engine small_toolkit (Some ''mssql'') (Some ''srv'') (Some ''sales'') None None
       (initial_state (\<lambda>n. Map.empty) 0) =
     (Inr (Small_URL ''mssql+pyodbc'' (Some ''srv'') (Some ''sales'')
            [''driver'' \<mapsto> ''SQL Server Native Client 11.0'']),
      initial_state (\<lambda>n. Map.empty) 2)"
proof -
  have start: "reachable small_toolkit (initial_state (\<lambda>n. Map.empty) 0)"
    by (rule reachable.loaded)
  have "build_engine small_toolkit (Some ''mssql'') (Some ''srv'') (Some ''sales'') None None
          (initial_state (\<lambda>n. Map.empty) 0) =
        delegated small_toolkit (Some ''mssql+pyodbc'') (Some ''srv'') (Some ''sales'')
          (Some [''driver'' \<mapsto> ''SQL Server Native Client 11.0'']) (initial_state (\<lambda>n. Map.empty) 0)"
    using build_engine_mssql [OF start] by (rule conjunct2)
  also have "\<dots> = (Inr (Small_URL ''mssql+pyodbc'' (Some ''srv'') (Some ''sales'')
                       [''driver'' \<mapsto> ''SQL Server Native Client 11.0'']),
                  initial_state (\<lambda>n. Map.empty) 2)"
    by (simp add: delegated_def create_engine_of_URL_def small_toolkit_def initial_state_def)
  finally show ?thesis using start by simp
qed

text \<open>
  Claim C2. For every path, \<^verbatim>\<open>build_engine\<close> with the driver \<^verbatim>\<open>"access"\<close> and a file path
  takes the branch of \<^verbatim>\<open>AccessEngine\<close> and returns the attribute \<^verbatim>\<open>engine\<close> of the
  instance. In every state a program can be in, that engine is what the toolkit makes of the
  URL with driver name \<^verbatim>\<open>access+pyodbc\<close>, no host, no database, and the query parameters
  \<^verbatim>\<open>driver\<close> and \<^verbatim>\<open>ExtendedAnsiSql\<close> of the class body together with \<^verbatim>\<open>DBQ\<close>, the
  absolute form of the path as a string; the class dictionary keeps the new \<^verbatim>\<open>DBQ\<close>.
\<close>

theorem build_engine_access:
  assumes "reachable lib s"
  shows "build_engine lib (Some ''access'') hst dbn qry (Some p) s = engine_of (AccessEngine_init lib p s)
       \<and> build_engine lib (Some ''access'') hst dbn qry (Some p) s =
           delegated lib (Some ''access+pyodbc'') None None
             (Some [''driver'' \<mapsto> ''Microsoft Access Driver (*.mdb, *.accdb)'',
                    ''ExtendedAnsiSql'' \<mapsto> ''1'',
                    ''DBQ'' \<mapsto> Path_absolute lib p (world s)])
             (s\<lparr>store := (store s)(AccessEngine_query :=
                  (store s AccessEngine_query)(''DBQ'' \<mapsto> Path_absolute lib p (world s)))\<rparr>)"
  using build_engine_access_delegated [OF reachable_class_dicts_ok [OF assms]]
  by (simp add: build_engine_def)

theorem build_engine_access_witness:
  "reachable small_toolkit (initial_state (\<lambda>n. Map.empty) 0)
   \<and> fst (build_engine small_toolkit (Some ''access'') None None None (Some ''books.accdb'')
       (initial_state (\<lambda>n. Map.empty) 0)) =
     Inr (Small_URL ''access+pyodbc'' None None
            [''driver'' \<mapsto> ''Microsoft Access Driver (*.mdb, *.accdb)'',
             ''ExtendedAnsiSql'' \<mapsto> ''1'',
             ''DBQ'' \<mapsto> ''/srv/books.accdb''])"
proof -
  let ?s = "initial_state (\<lambda>n. Map.empty) (0::nat)"
  have start: "reachable small_toolkit ?s"
    by (rule reachable.loaded)
  have abs: "Path_absolute small_toolkit ''books.accdb'' w = ''/srv/books.accdb''" for w
    by (simp add: small_toolkit_def)
  have "fst (build_engine small_toolkit (Some ''access'') None None None (Some ''books.accdb'')
          ?s) =
        fst (delegated small_toolkit (Some ''access+pyodbc'') None None
          (Some [''driver'' \<mapsto> ''Microsoft Access Driver (*.mdb, *.accdb)'',
                 ''ExtendedAnsiSql'' \<mapsto> ''1'',
                 ''DBQ'' \<mapsto> ''/srv/books.accdb''])
          (?s\<lparr>store :=
              (store ?s)(AccessEngine_query :=
                 (store ?s AccessEngine_query)
                   (''DBQ'' \<mapsto> ''/srv/books.accdb''))\<rparr>))"
    using build_engine_access [OF start, where p = "''books.accdb''" and hst = None and dbn = None
        and qry = None, THEN conjunct2]
    by (simp add: abs)
  also have "\<dots> = Inr (Small_URL ''access+pyodbc'' None None
            [''driver'' \<mapsto> ''Microsoft Access Driver (*.mdb, *.accdb)'',
             ''ExtendedAnsiSql'' \<mapsto> ''1'',
             ''DBQ'' \<mapsto> ''/srv/books.accdb''])"
    by (simp add: delegated_def create_engine_of_URL_def small_toolkit_def)
  finally show ?thesis using start by simp
qed

text \<open>
  Claim C3. Constructing a \<^verbatim>\<open>SQLEngine\<close> from a driver, a host, a database and a query
  dictionary (and extra keywords that do not repeat \<^verbatim>\<open>drivername\<close>) hands exactly these
  to \<^verbatim>\<open>URL.create\<close>: an instance that results has the four arguments as its attributes
  \<^verbatim>\<open>driver\<close>, \<^verbatim>\<open>host\<close>, \<^verbatim>\<open>database\<close> and \<^verbatim>\<open>query\<close>, its \<^verbatim>\<open>url\<close> is the URL the
  toolkit made of them and its \<^verbatim>\<open>engine\<close> the engine made of that URL; no dictionary is
  written; the construction fails only with an exception of the toolkit, and it succeeds
  whenever the two calls of the toolkit do.
\<close>

theorem SQLEngine_init_components:
  assumes "kw ''drivername'' = None"
  shows "(case SQLEngine_init lib drv hst dbn qry kw s of
            (Inr self, s') \<Rightarrow>
              driver self = drv \<and> host self = hst \<and> database self = dbn \<and> query self = qry
              \<and> store s' = store s
              \<and> (\<exists>w1. URL_create lib drv hst dbn (map_option (store s) qry) kw (world s)
                         = (Inr (url self), w1)
                      \<and> create_engine lib (url self) w1 = (Inr (engine self), world s'))
          | (Inl e, s') \<Rightarrow> (\<exists>x. e = Raised x) \<and> store s' = store s)
       \<and> (\<forall>u w1 g w2.
            URL_create lib drv hst dbn (map_option (store s) qry) kw (world s) = (Inr u, w1)
            \<and> create_engine lib u w1 = (Inr g, w2)
            \<longrightarrow> SQLEngine_init lib drv hst dbn qry kw s =
                  (Inr \<lparr>driver = drv, host = hst, database = dbn, query = qry, url = u, engine = g\<rparr>,
                   s\<lparr>world := w2\<rparr>))"
  using assms by (auto simp add: SQLEngine_init_def split: prod.splits sum.splits)

theorem SQLEngine_init_components_witness:
  "[''port'' \<mapsto> KwInt 5432] ''drivername'' = None
   \<and> SQLEngine_init small_toolkit (Some ''postgresql'') (Some ''srv'') (Some ''sales'')
        (Some (Caller 0)) [''port'' \<mapsto> KwInt 5432] (initial_state (\<lambda>n. [''sslmode'' \<mapsto> ''require'']) 0) =
       (Inr \<lparr>driver = Some ''postgresql'', host = Some ''srv'', database = Some ''sales'',
             query = Some (Caller 0),
             url = Small_URL ''postgresql'' (Some ''srv'') (Some ''sales'') [''sslmode'' \<mapsto> ''require''],
             engine = Small_URL ''postgresql'' (Some ''srv'') (Some ''sales'') [''sslmode'' \<mapsto> ''require'']\<rparr>,
        initial_state (\<lambda>n. [''sslmode'' \<mapsto> ''require'']) 2)"
proof -
  let ?s = "initial_state (\<lambda>n. [''sslmode'' \<mapsto> ''require'']) (0::nat)"
  let ?u = "Small_URL ''postgresql'' (Some ''srv'') (Some ''sales'') [''sslmode'' \<mapsto> ''require'']"
  have kw: "[''port'' \<mapsto> KwInt 5432] ''drivername'' = None" by simp
  have made: "URL_create small_toolkit (Some ''postgresql'') (Some ''srv'') (Some ''sales'')
                (map_option (store ?s) (Some (Caller 0))) [''port'' \<mapsto> KwInt 5432] (world ?s)
              = (Inr ?u, 1)
            \<and> create_engine small_toolkit ?u 1 = (Inr ?u, 2)"
    by (simp add: small_toolkit_def initial_state_def)
  have "SQLEngine_init small_toolkit (Some ''postgresql'') (Some ''srv'') (Some ''sales'')
          (Some (Caller 0)) [''port'' \<mapsto> KwInt 5432] ?s =
        (Inr \<lparr>driver = Some ''postgresql'', host = Some ''srv'', database = Some ''sales'',
              query = Some (Caller 0), url = ?u, engine = ?u\<rparr>, ?s\<lparr>world := 2\<rparr>)"
    using SQLEngine_init_components [where kw = "[''port'' \<mapsto> KwInt 5432]"
        and lib = small_toolkit and s = ?s and qry = "Some (Caller 0)" and drv = "Some ''postgresql''"
        and hst = "Some ''srv''" and dbn = "Some ''sales''", OF kw, THEN conjunct2]
      made by blast
  then show ?thesis using kw by (simp add: initial_state_def)
qed

text \<open>
  Claim C4. For every driver string other than \<^verbatim>\<open>"mssql"\<close> and \<^verbatim>\<open>"access"\<close>,
  \<^verbatim>\<open>build_engine\<close> returns exactly what \<^verbatim>\<open>create_engine\<close> makes of \<^verbatim>\<open>URL.create\<close>
  applied to the given driver, host, database and query, the arguments untouched; an
  exception of the toolkit is passed on as it is.
\<close>

theorem build_engine_generic:
  assumes "d \<noteq> ''mssql''" and "d \<noteq> ''access''"
  shows "build_engine lib (Some d) hst dbn qry path s =
           delegated lib (Some d) hst dbn (map_option (store s) qry) s"
  using assms by (simp add: build_engine_def reraise SQLEngine_init_delegated)

theorem build_engine_generic_witness:
  "''sqlite'' \<noteq> ''mssql'' \<and> ''sqlite'' \<noteq> ''access''
   \<and> build_engine small_toolkit (Some ''sqlite'') None (Some ''notes.db'') (Some (Caller 3)) None
        (initial_state (\<lambda>n. [''timeout'' \<mapsto> ''5'']) 0) =
       (Inr (Small_URL ''sqlite'' None (Some ''notes.db'') [''timeout'' \<mapsto> ''5'']),
        initial_state (\<lambda>n. [''timeout'' \<mapsto> ''5'']) 2)"
proof -
  let ?s = "initial_state (\<lambda>n. [''timeout'' \<mapsto> ''5'']) (0::nat)"
  have d: "''sqlite'' \<noteq> ''mssql''" "''sqlite'' \<noteq> ''access''" by simp_all
  have "build_engine small_toolkit (Some ''sqlite'') None (Some ''notes.db'') (Some (Caller 3)) None ?s
        = delegated small_toolkit (Some ''sqlite'') None (Some ''notes.db'')
            (map_option (store ?s) (Some (Caller 3))) ?s"
    by (rule build_engine_generic [OF d])
  also have "\<dots> = (Inr (Small_URL ''sqlite'' None (Some ''notes.db'') [''timeout'' \<mapsto> ''5'']),
                  initial_state (\<lambda>n. [''timeout'' \<mapsto> ''5'']) 2)"
    by (simp add: delegated_def create_engine_of_URL_def small_toolkit_def initial_state_def)
  finally show ?thesis using d by simp
qed

text \<open>
  Claim C5. \<^verbatim>\<open>build_engine\<close> chooses the class by comparing the driver with the two exact
  strings: \<^verbatim>\<open>"mssql"\<close> gives \<^verbatim>\<open>MSSQLEngine\<close> and \<^verbatim>\<open>"access"\<close> (with a file path) gives
  \<^verbatim>\<open>AccessEngine\<close>, whatever the other arguments are, and every other driver string, such
  as \<^verbatim>\<open>"MSSQL"\<close> or \<^verbatim>\<open>"Access"\<close>, gives the plain \<^verbatim>\<open>SQLEngine\<close>. There are these three
  branches and no other.
\<close>

theorem build_engine_dispatch:
  "(d \<noteq> ''mssql'' \<and> d \<noteq> ''access'' \<longrightarrow>
      build_engine lib (Some d) hst dbn qry path s =
        engine_of (SQLEngine_init lib (Some d) hst dbn qry Map.empty s))
   \<and> build_engine lib (Some ''mssql'') hst dbn qry path s = engine_of (MSSQLEngine_init lib hst dbn s)
   \<and> build_engine lib (Some ''access'') hst dbn qry (Some p) s = engine_of (AccessEngine_init lib p s)
   \<and> build_engine lib (Some ''MSSQL'') hst dbn qry path s =
        engine_of (SQLEngine_init lib (Some ''MSSQL'') hst dbn qry Map.empty s)
   \<and> build_engine lib (Some ''Access'') hst dbn qry path s =
        engine_of (SQLEngine_init lib (Some ''Access'') hst dbn qry Map.empty s)"
  by (simp add: build_engine_def reraise)

theorem build_engine_dispatch_witness:
  "(''oracle'' \<noteq> ''mssql'' \<and> ''oracle'' \<noteq> ''access'')
   \<and> build_engine small_toolkit (Some ''oracle'') (Some ''srv'') None None (Some ''x.mdb'')
        (initial_state (\<lambda>n. Map.empty) 0) =
       (Inr (Small_URL ''oracle'' (Some ''srv'') None Map.empty), initial_state (\<lambda>n. Map.empty) 2)"
proof -
  let ?s = "initial_state (\<lambda>n. Map.empty) (0::nat)"
  have d: "''oracle'' \<noteq> ''mssql'' \<and> ''oracle'' \<noteq> ''access''" by simp
  from build_engine_dispatch [where d = "''oracle''" and lib = small_toolkit
      and hst = "Some ''srv''" and dbn = None and qry = None and path = "Some ''x.mdb''" and s = ?s] d
  have "build_engine small_toolkit (Some ''oracle'') (Some ''srv'') None None (Some ''x.mdb'') ?s
        = engine_of (SQLEngine_init small_toolkit (Some ''oracle'') (Some ''srv'') None None Map.empty ?s)"
    by blast
  also have "\<dots> = (Inr (Small_URL ''oracle'' (Some ''srv'') None Map.empty),
                  initial_state (\<lambda>n. Map.empty) 2)"
    by (simp add: engine_of_def SQLEngine_init_def small_toolkit_def initial_state_def)
  finally show ?thesis using d by simp
qed

text \<open>
  Claim C6. \<^verbatim>\<open>SQLEngine.connect\<close> adds nothing of its own: its result is the result of
  \<^verbatim>\<open>connect\<close> on the engine stored in the instance, connection or exception, the world is
  left as that call leaves it, and no dictionary is written.
\<close>

theorem connect_delegates:
  "connect lib self s =
     (case Engine_connect lib (engine self) (world s) of
        (r, w1) \<Rightarrow> (map_sum Raised id r, s\<lparr>world := w1\<rparr>))
   \<and> store (snd (connect lib self s)) = store s
   \<and> world (snd (connect lib self s)) = snd (Engine_connect lib (engine self) (world s))"
  by (simp add: connect_def split: prod.splits sum.splits)

text \<open>
  Claim C7. \<^verbatim>\<open>build_engine\<close> raises the \<^verbatim>\<open>AssertionError\<close> of one of its two assertions
  exactly when the driver and the file path are both \<^verbatim>\<open>None\<close>, or the driver is
  \<^verbatim>\<open>"access"\<close> and the file path is \<^verbatim>\<open>None\<close>; it has then constructed nothing and called
  nothing, the state being the one it started in. In all other cases neither assertion
  fires.
\<close>

theorem build_engine_assertions:
  "((\<exists>m. fst (build_engine lib drv hst dbn qry path s) = Inl (AssertionError m))
      \<longleftrightarrow> (drv = None \<and> path = None) \<or> (drv = Some ''access'' \<and> path = None))
   \<and> ((drv = None \<and> path = None) \<or> (drv = Some ''access'' \<and> path = None)
        \<longrightarrow> snd (build_engine lib drv hst dbn qry path s) = s)"
  unfolding build_engine_def reraise MSSQLEngine_init_def AccessEngine_init_def SQLEngine_init_delegated
  by (auto simp add: delegated_def split: prod.splits sum.splits option.splits)

theorem build_engine_assertions_witness:
  "(Some ''access'' = Some ''access'' \<and> (None :: string option) = None)
   \<and> build_engine small_toolkit (Some ''access'') (Some ''srv'') None None None
        (initial_state (\<lambda>n. Map.empty) 0) =
       (Inl (AssertionError ''Using Access you must specify a local database file path.''),
        initial_state (\<lambda>n. Map.empty) 0)"
proof -
  let ?s = "initial_state (\<lambda>n. Map.empty) (0::nat)"
  let ?r = "build_engine small_toolkit (Some ''access'') (Some ''srv'') None None None ?s"
  from build_engine_assertions [where lib = small_toolkit and drv = "Some ''access''"
      and hst = "Some ''srv''" and dbn = None and qry = None and path = None and s = ?s]
  have "(\<exists>m. fst ?r = Inl (AssertionError m)) \<and> snd ?r = ?s"
    by simp
  moreover have "fst ?r = Inl (AssertionError m) \<Longrightarrow>
                 m = ''Using Access you must specify a local database file path.''" for m
    by (simp add: build_engine_def)
  ultimately have "?r = (Inl (AssertionError ''Using Access you must specify a local database file path.''), ?s)"
    by (metis prod.collapse)
  then show ?thesis by simp
qed

text \<open>
  Claim C8, as stated: with the driver \<^verbatim>\<open>"mssql"\<close> or \<^verbatim>\<open>"access"\<close> no entry of the query
  dictionary passed to \<^verbatim>\<open>build_engine\<close> appears in the URL. This fails where the
  dictionary passed has an entry that the class body has too: the caller passes
  \<^verbatim>\<open>{"driver": "SQL Server Native Client 11.0"}\<close> with the driver \<^verbatim>\<open>"mssql"\<close>, and the URL
  of the engine carries that very entry.
\<close>

theorem build_engine_query_entry_counterexample:
  "store (initial_state (\<lambda>n. [''driver'' \<mapsto> ''SQL Server Native Client 11.0'']) (0::nat))
     (Caller 0) ''driver'' = Some ''SQL Server Native Client 11.0''
   \<and> fst (build_engine small_toolkit (Some ''mssql'') (Some ''srv'') (Some ''sales'')
            (Some (Caller 0)) None
            (initial_state (\<lambda>n. [''driver'' \<mapsto> ''SQL Server Native Client 11.0'']) (0::nat))) =
       Inr (Small_URL ''mssql+pyodbc'' (Some ''srv'') (Some ''sales'')
              [''driver'' \<mapsto> ''SQL Server Native Client 11.0''])
   \<and> small_url_query (Small_URL ''mssql+pyodbc'' (Some ''srv'') (Some ''sales'')
              [''driver'' \<mapsto> ''SQL Server Native Client 11.0'']) ''driver''
       = Some ''SQL Server Native Client 11.0''"
  by (simp add: build_engine_def MSSQLEngine_init_def SQLEngine_init_def engine_of_def
        small_toolkit_def initial_state_def MSSQLEngine_driver_def MSSQLEngine_query_literal_def)

text \<open>
  Claim C8, amended. With the driver \<^verbatim>\<open>"mssql"\<close> or \<^verbatim>\<open>"access"\<close>, \<^verbatim>\<open>build_engine\<close> never
  reads its query argument: the outcome is the same whatever is passed for it, and in
  every state a program can be in the URL carries exactly the query parameters of the class
  body (with \<^verbatim>\<open>DBQ\<close> for Access). An entry of the dictionary passed is in the URL only
  where it is one of those.
\<close>

theorem build_engine_presets_only:
  "build_engine lib (Some ''mssql'') hst dbn qry path s =
     build_engine lib (Some ''mssql'') hst dbn qry' path s
   \<and> build_engine lib (Some ''access'') hst dbn qry path s =
       build_engine lib (Some ''access'') hst dbn qry' path s
   \<and> (reachable lib s \<longrightarrow>
        build_engine lib (Some ''mssql'') hst dbn qry path s =
          delegated lib (Some ''mssql+pyodbc'') hst dbn
            (Some [''driver'' \<mapsto> ''SQL Server Native Client 11.0'']) s
        \<and> build_engine lib (Some ''access'') hst dbn qry (Some p) s =
            delegated lib (Some ''access+pyodbc'') None None
              (Some [''driver'' \<mapsto> ''Microsoft Access Driver (*.mdb, *.accdb)'',
                     ''ExtendedAnsiSql'' \<mapsto> ''1'',
                     ''DBQ'' \<mapsto> Path_absolute lib p (world s)])
              (s\<lparr>store := (store s)(AccessEngine_query :=
                   (store s AccessEngine_query)(''DBQ'' \<mapsto> Path_absolute lib p (world s)))\<rparr>))"
proof (intro conjI impI)
  show "build_engine lib (Some ''mssql'') hst dbn qry path s =
          build_engine lib (Some ''mssql'') hst dbn qry' path s"
    by (simp add: build_engine_def)
  show "build_engine lib (Some ''access'') hst dbn qry path s =
          build_engine lib (Some ''access'') hst dbn qry' path s"
    by (simp add: build_engine_def)
next
  assume "reachable lib s"
  then have ok: "class_dicts_ok s" by (rule reachable_class_dicts_ok)
  show "build_engine lib (Some ''mssql'') hst dbn qry path s =
          delegated lib (Some ''mssql+pyodbc'') hst dbn
            (Some [''driver'' \<mapsto> ''SQL Server Native Client 11.0'']) s"
    by (rule build_engine_mssql_delegated [OF ok])
  show "build_engine lib (Some ''access'') hst dbn qry (Some p) s =
            delegated lib (Some ''access+pyodbc'') None None
              (Some [''driver'' \<mapsto> ''Microsoft Access Driver (*.mdb, *.accdb)'',
                     ''ExtendedAnsiSql'' \<mapsto> ''1'',
                     ''DBQ'' \<mapsto> Path_absolute lib p (world s)])
              (s\<lparr>store := (store s)(AccessEngine_query :=
                   (store s AccessEngine_query)(''DBQ'' \<mapsto> Path_absolute lib p (world s)))\<rparr>)"
    by (rule build_engine_access_delegated [OF ok])
qed

theorem build_engine_presets_only_witness:
  "reachable small_toolkit (initial_state (\<lambda>n. [''Trusted_Connection'' \<mapsto> ''yes'']) 0)
   \<and> build_engine small_toolkit (Some ''mssql'') (Some ''srv'') (Some ''sales'') (Some (Caller 0)) None
        (initial_state (\<lambda>n. [''Trusted_Connection'' \<mapsto> ''yes'']) 0) =
       (Inr (Small_URL ''mssql+pyodbc'' (Some ''srv'') (Some ''sales'')
              [''driver'' \<mapsto> ''SQL Server Native Client 11.0'']),
        initial_state (\<lambda>n. [''Trusted_Connection'' \<mapsto> ''yes'']) 2)"
proof -
  let ?s = "initial_state (\<lambda>n. [''Trusted_Connection'' \<mapsto> ''yes'']) (0::nat)"
  have start: "reachable small_toolkit ?s" by (rule reachable.loaded)
  from build_engine_presets_only [where lib = small_toolkit and s = ?s and hst = "Some ''srv''"
      and dbn = "Some ''sales''" and qry = "Some (Caller 0)" and path = None] start
  have "build_engine small_toolkit (Some ''mssql'') (Some ''srv'') (Some ''sales'') (Some (Caller 0)) None ?s
        = delegated small_toolkit (Some ''mssql+pyodbc'') (Some ''srv'') (Some ''sales'')
            (Some [''driver'' \<mapsto> ''SQL Server Native Client 11.0'']) ?s"
    by blast
  also have "\<dots> = (Inr (Small_URL ''mssql+pyodbc'' (Some ''srv'') (Some ''sales'')
                        [''driver'' \<mapsto> ''SQL Server Native Client 11.0'']),
                  initial_state (\<lambda>n. [''Trusted_Connection'' \<mapsto> ''yes'']) 2)"
    by (simp add: delegated_def create_engine_of_URL_def small_toolkit_def initial_state_def)
  finally show ?thesis using start by simp
qed

text \<open>
  Claim C9. Constructing an \<^verbatim>\<open>AccessEngine\<close> with a path writes \<^verbatim>\<open>DBQ\<close> into the
  dictionary of the class, not into a copy: afterwards \<^verbatim>\<open>AccessEngine.query["DBQ"]\<close> is
  the absolute form of that path, nothing else in the store has changed, and every
  instance constructed earlier refers to the same dictionary through its attribute
  \<^verbatim>\<open>query\<close>, so reads the new \<^verbatim>\<open>DBQ\<close> as well. The entry stays when engines of the
  other classes are constructed or connections are opened. The write precedes the
  constructor of the base class, so it is made also when the toolkit then raises.
\<close>

theorem AccessEngine_init_shared_query:
  "store (snd (AccessEngine_init lib p s)) =
     (store s)(AccessEngine_query :=
        (store s AccessEngine_query)(''DBQ'' \<mapsto> Path_absolute lib p (world s)))
   \<and> store (snd (AccessEngine_init lib p s)) AccessEngine_query ''DBQ''
       = Some (Path_absolute lib p (world s))
   \<and> (fst (AccessEngine_init lib p_old s_old) = Inr old \<longrightarrow>
        query old = Some AccessEngine_query
        \<and> query_dict (snd (AccessEngine_init lib p s)) old
            = Some (store (snd (AccessEngine_init lib p s)) AccessEngine_query))
   \<and> store (snd (SQLEngine_init lib drv hst dbn qry kw s)) = store s
   \<and> store (snd (MSSQLEngine_init lib hst dbn s)) = store s
   \<and> store (snd (connect lib self s)) = store s"
proof -
  have old: "query old = Some AccessEngine_query" if "fst (AccessEngine_init lib p_old s_old) = Inr old"
    using that
    by (auto simp add: AccessEngine_init_def SQLEngine_init_def split: prod.splits sum.splits)
  show ?thesis
    using old
    by (simp add: AccessEngine_init_store SQLEngine_init_store MSSQLEngine_init_store connect_store
          query_dict_def)
qed

theorem AccessEngine_init_shared_query_witness:
  "fst (AccessEngine_init small_toolkit ''a.mdb'' (initial_state (\<lambda>n. Map.empty) 0)) =
     Inr \<lparr>driver = Some ''access+pyodbc'', host = None, database = None,
          query = Some AccessEngine_query,
          url = Small_URL ''access+pyodbc'' None None
                  [''driver'' \<mapsto> ''Microsoft Access Driver (*.mdb, *.accdb)'',
                   ''ExtendedAnsiSql'' \<mapsto> ''1'', ''DBQ'' \<mapsto> ''/srv/a.mdb''],
          engine = Small_URL ''access+pyodbc'' None None
                  [''driver'' \<mapsto> ''Microsoft Access Driver (*.mdb, *.accdb)'',
                   ''ExtendedAnsiSql'' \<mapsto> ''1'', ''DBQ'' \<mapsto> ''/srv/a.mdb'']\<rparr>
   \<and> (\<exists>d. query_dict
        (snd (AccessEngine_init small_toolkit ''/data/b.mdb''
               (snd (AccessEngine_init small_toolkit ''a.mdb'' (initial_state (\<lambda>n. Map.empty) 0)))))
        \<lparr>driver = Some ''access+pyodbc'', host = None, database = None,
          query = Some AccessEngine_query,
          url = Small_URL ''access+pyodbc'' None None
                  [''driver'' \<mapsto> ''Microsoft Access Driver (*.mdb, *.accdb)'',
                   ''ExtendedAnsiSql'' \<mapsto> ''1'', ''DBQ'' \<mapsto> ''/srv/a.mdb''],
          engine = Small_URL ''access+pyodbc'' None None
                  [''driver'' \<mapsto> ''Microsoft Access Driver (*.mdb, *.accdb)'',
                   ''ExtendedAnsiSql'' \<mapsto> ''1'', ''DBQ'' \<mapsto> ''/srv/a.mdb'']\<rparr> = Some d
        \<and> d ''DBQ'' = Some ''/data/b.mdb'')"
proof -
  let ?s0 = "initial_state (\<lambda>n. Map.empty) (0::nat)"
  let ?u = "Small_URL ''access+pyodbc'' None None
                  [''driver'' \<mapsto> ''Microsoft Access Driver (*.mdb, *.accdb)'',
                   ''ExtendedAnsiSql'' \<mapsto> ''1'', ''DBQ'' \<mapsto> ''/srv/a.mdb'']"
  let ?old = "\<lparr>driver = Some ''access+pyodbc'', host = None, database = None,
          query = Some AccessEngine_query, url = ?u, engine = ?u\<rparr>"
  let ?s1 = "snd (AccessEngine_init small_toolkit ''a.mdb'' ?s0)"
  let ?s2 = "snd (AccessEngine_init small_toolkit ''/data/b.mdb'' ?s1)"
  have first: "fst (AccessEngine_init small_toolkit ''a.mdb'' ?s0) = Inr ?old"
    by (simp add: AccessEngine_init_def SQLEngine_init_def small_toolkit_def initial_state_def
          AccessEngine_driver_def AccessEngine_query_literal_def)
  note shared = AccessEngine_init_shared_query [where lib = small_toolkit and p_old = "''a.mdb''"
      and s_old = ?s0 and old = ?old and p = "''/data/b.mdb''" and s = ?s1]
  have abs: "Path_absolute small_toolkit ''/data/b.mdb'' w = ''/data/b.mdb''" for w
    by (simp add: small_toolkit_def)
  have "store ?s2 AccessEngine_query ''DBQ'' = Some (Path_absolute small_toolkit ''/data/b.mdb'' (world ?s1))"
    using shared [THEN conjunct2] by (rule conjunct1)
  then have dbq: "store ?s2 AccessEngine_query ''DBQ'' = Some ''/data/b.mdb''"
    by (simp only: abs)
  have "fst (AccessEngine_init small_toolkit ''a.mdb'' ?s0) = Inr ?old \<longrightarrow>
        query ?old = Some AccessEngine_query
        \<and> query_dict ?s2 ?old = Some (store ?s2 AccessEngine_query)"
    using shared [THEN conjunct2, THEN conjunct2] by (rule conjunct1)
  with first have "query_dict ?s2 ?old = Some (store ?s2 AccessEngine_query)"
    by (elim impE conjE)
  with dbq first show ?thesis by (intro conjI exI) assumption+
qed

end
